theory Spec2Isabelle
  imports Main "HOL-Library.Word"
begin

section \<open>Durations and instants\<close>

text \<open>
  Go's \<^verbatim>\<open>time.Duration\<close> is an \<^verbatim>\<open>int64\<close> count of nanoseconds: its
  \<^verbatim>\<open>+\<close> and \<^verbatim>\<open>*\<close> wrap around and its comparisons are signed. It is modelled as a
  64-bit word, compared with \<open>word_sless\<close> and read with \<open>sint\<close>.

  A \<^verbatim>\<open>time.Time\<close> (and the \<^verbatim>\<open>metav1.MicroTime\<close> wrapping it) is an instant on
  the wall clock, modelled as its distance from the epoch in nanoseconds. The range of
  \<^verbatim>\<open>time.Time\<close> is wider than any sum the lease manager forms, so the instant is an
  unbounded integer. \<^verbatim>\<open>Time.Add\<close> moves an instant by the signed value of a duration,
  \<^verbatim>\<open>Time.After\<close> and \<^verbatim>\<open>Time.Before\<close> are the strict orders.
\<close>

type_synonym Duration = "64 word"
type_synonym Time = int

definition Second :: Duration where
  "Second = 1000000000"

definition Minute :: Duration where
  "Minute = 60 * Second"

definition Add :: "Time \<Rightarrow> Duration \<Rightarrow> Time" where
  "Add t d = t + sint d"

definition After :: "Time \<Rightarrow> Time \<Rightarrow> bool" where
  "After t u = (u < t)"

definition Before :: "Time \<Rightarrow> Time \<Rightarrow> bool" where
  "Before t u = (t < u)"

section \<open>Package-level variables of lease.go\<close>

definition templateSuffix :: string where
  "templateSuffix = ''Template''"

definition holderIdentity :: string where
  "holderIdentity = ''Node-Healthcheck''"

definition LeaseBuffer :: Duration where
  "LeaseBuffer = Minute"

definition RequeueIfLeaseTaken :: Duration where
  "RequeueIfLeaseTaken = Minute"

definition DefaultLeaseDuration :: Duration where
  "DefaultLeaseDuration = 10 * Minute"

definition maxTimesToExtendLease :: "64 word" where
  "maxTimesToExtendLease = 2"

section \<open>Data\<close>

text \<open>
  Only the fields that lease.go reads are kept. A Go pointer field that may be nil is
  an \<open>option\<close>.
  \<^item> \<open>Unstructured\<close>: a remediation CR, read through \<^verbatim>\<open>GetName()\<close> and \<^verbatim>\<open>GetKind()\<close>.
  \<^item> \<open>EscalatingRemediation\<close>: one step of \<^verbatim>\<open>nhc.Spec.EscalatingRemediations\<close>, with
    \<^verbatim>\<open>RemediationTemplate.Kind\<close> and \<^verbatim>\<open>Timeout.Duration\<close>.
  \<^item> \<open>Lease\<close>: \<^verbatim>\<open>coordv1.Lease\<close>, its name and the four \<^verbatim>\<open>Spec\<close> pointers.
\<close>

record Unstructured =
  GetName :: string
  GetKind :: string

record EscalatingRemediation =
  RemediationTemplate_Kind :: string
  Timeout :: Duration

record NodeHealthCheck =
  EscalatingRemediations :: "EscalatingRemediation list"

record Lease =
  Name :: string
  HolderIdentity :: "string option"
  LeaseDurationSeconds :: "32 word option"
  AcquireTime :: "Time option"
  RenewTime :: "Time option"

datatype Node = Node (NodeName: string)

section \<open>Strings\<close>

text \<open>
  \<^verbatim>\<open>strings.HasSuffix(s, suffix)\<close> is
  \<^verbatim>\<open>len(s) >= len(suffix) && s[len(s)-len(suffix):] == suffix\<close>, and
  \<^verbatim>\<open>strings.TrimSuffix\<close> cuts the suffix off when it is there and returns \<^verbatim>\<open>s\<close>
  unchanged otherwise. Both work on bytes, without case folding.
\<close>

definition HasSuffix :: "string \<Rightarrow> string \<Rightarrow> bool" where
  "HasSuffix s suffix =
     (length suffix \<le> length s \<and> drop (length s - length suffix) s = suffix)"

definition TrimSuffix :: "string \<Rightarrow> string \<Rightarrow> string" where
  "TrimSuffix s suffix =
     (if HasSuffix s suffix then take (length s - length suffix) s else s)"

section \<open>Lease durations from the escalation policy\<close>

text \<open>
  The loop of \<^verbatim>\<open>getTimeoutForRemediation\<close>: \<^verbatim>\<open>leaseDuration\<close> starts at the zero value
  and the first step whose trimmed template kind equals the CR's kind sets it and breaks.
\<close>

fun getTimeoutForRemediation_loop :: "string \<Rightarrow> EscalatingRemediation list \<Rightarrow> Duration" where
  "getTimeoutForRemediation_loop remediationKind [] = 0"
| "getTimeoutForRemediation_loop remediationKind (esRemediation # rest) =
     (if TrimSuffix (RemediationTemplate_Kind esRemediation) ''Template'' = remediationKind
      then Timeout esRemediation
      else getTimeoutForRemediation_loop remediationKind rest)"

definition getTimeoutForRemediation :: "Unstructured \<Rightarrow> NodeHealthCheck \<Rightarrow> Duration" where
  "getTimeoutForRemediation remediationCR nhc =
     getTimeoutForRemediation_loop (GetKind remediationCR) (EscalatingRemediations nhc)"

definition getLeaseDurationForRemediation :: "Unstructured \<Rightarrow> NodeHealthCheck \<Rightarrow> Duration" where
  "getLeaseDurationForRemediation remediationCR nhc =
     (let timeout = getTimeoutForRemediation remediationCR nhc
      in if timeout \<noteq> 0 then timeout else DefaultLeaseDuration)"

text \<open>
  The loop of \<^verbatim>\<open>getLeaseDurationForRemediations\<close>, with the running
  \<^verbatim>\<open>highestRemediationLeaseDuration\<close> as accumulator; \<^verbatim>\<open>>\<close> on durations is the
  signed order.
\<close>

fun getLeaseDurationForRemediations_loop ::
  "NodeHealthCheck \<Rightarrow> Unstructured list \<Rightarrow> Duration \<Rightarrow> Duration" where
  "getLeaseDurationForRemediations_loop nhc [] highest = highest"
| "getLeaseDurationForRemediations_loop nhc (remediationCr # rest) highest =
     (let currentLeaseDuration = getLeaseDurationForRemediation remediationCr nhc
      in getLeaseDurationForRemediations_loop nhc rest
           (if word_sless highest currentLeaseDuration then currentLeaseDuration else highest))"

definition getLeaseDurationForRemediations ::
  "NodeHealthCheck \<Rightarrow> Unstructured list \<Rightarrow> Duration" where
  "getLeaseDurationForRemediations nhc remediationCrs =
     (if length (EscalatingRemediations nhc) > 0
      then getLeaseDurationForRemediations_loop nhc remediationCrs 0
      else DefaultLeaseDuration)"

section \<open>Overdue detection and ownership\<close>

datatype error =
    NotFoundError
  | AlreadyHeldError
  | Errorf string
  | OtherError string

text \<open>
  \<^verbatim>\<open>errors.IsNotFound\<close> of apimachinery recognises the not-found status; the type
  assertion \<^verbatim>\<open>err.(lease.AlreadyHeldError)\<close> recognises the contention error of the
  lease library. \<open>Errorf\<close> is an error built by \<^verbatim>\<open>fmt.Errorf\<close> inside lease.go,
  \<open>OtherError\<close> any other failure of the API client or of the lease library.
\<close>

fun IsNotFound :: "error \<Rightarrow> bool" where
  "IsNotFound NotFoundError = True"
| "IsNotFound _ = False"

fun isAlreadyHeldError :: "error \<Rightarrow> bool" where
  "isAlreadyHeldError AlreadyHeldError = True"
| "isAlreadyHeldError _ = False"

text \<open>
  \<^verbatim>\<open>calcLeaseExpiration\<close> dereferences \<^verbatim>\<open>l.Spec.AcquireTime\<close>; its two call sites come
  after the nil check of \<^verbatim>\<open>isLeaseOverdue\<close>, so the model passes it the dereferenced
  instant. \<^verbatim>\<open>time.Now()\<close> is the parameter \<open>now\<close>.
\<close>

definition calcLeaseExpiration :: "Time \<Rightarrow> Duration \<Rightarrow> Time" where
  "calcLeaseExpiration acquireTime leaseDuration =
     Add acquireTime ((maxTimesToExtendLease + 1) * leaseDuration)"

definition isLeaseOverdue ::
  "Time \<Rightarrow> Lease \<Rightarrow> NodeHealthCheck \<Rightarrow> Unstructured list \<Rightarrow> bool \<times> error option" where
  "isLeaseOverdue now l nhc remediationCrs =
     (case AcquireTime l of
        None \<Rightarrow> (False, Some (Errorf ''lease Spec.AcquireTime is nil''))
      | Some acquireTime \<Rightarrow>
          (let leaseDuration = getLeaseDurationForRemediations nhc remediationCrs
           in (After now (calcLeaseExpiration acquireTime leaseDuration), None)))"

definition isRemediationsExist :: "Unstructured list \<Rightarrow> bool" where
  "isRemediationsExist remediationCrs = (length remediationCrs > 0)"

definition isLeaseOwner :: "Lease \<Rightarrow> bool" where
  "isLeaseOwner l =
     (case HolderIdentity l of
        None \<Rightarrow> False
      | Some holder \<Rightarrow> holder = holderIdentity)"

section \<open>The lease manager and its collaborators\<close>

text \<open>
  \<^verbatim>\<open>nhcLeaseManager\<close> holds the API client and the lease manager of
  \<^verbatim>\<open>medik8s/common\<close>. Both live outside this repository, so they are the fields of a
  record over a cluster state \<open>'s\<close>: the two reads return a value or an error, the
  two writes return an optional error and the next state. Every call the manager
  issues is also appended to a log of calls, which is what a test double counts.
  Logging through \<^verbatim>\<open>m.log\<close> has no effect on results and is left out.
\<close>

record 's nhcLeaseManager =
  client_Get :: "'s \<Rightarrow> string \<Rightarrow> error + Node"
  GetLease :: "'s \<Rightarrow> Node \<Rightarrow> error + Lease"
  RequestLease :: "'s \<Rightarrow> Node \<Rightarrow> Duration \<Rightarrow> error option \<times> 's"
  InvalidateLease :: "'s \<Rightarrow> Node \<Rightarrow> error option \<times> 's"

datatype Call =
    Call_Get string
  | Call_GetLease Node
  | Call_RequestLease Node Duration
  | Call_InvalidateLease Node

text \<open>A Go call either returns or panics (here: on a nil pointer dereference).\<close>

datatype 'a Outcome = Return 'a | Panic

definition ObtainNodeLease ::
  "'s nhcLeaseManager \<Rightarrow> Unstructured \<Rightarrow> NodeHealthCheck \<Rightarrow> 's
     \<Rightarrow> (bool \<times> Duration option \<times> error option) \<times> 's \<times> Call list" where
  "ObtainNodeLease m remediationCR nhc s =
     (let nodeName = GetName remediationCR;
          leaseDuration = getLeaseDurationForRemediation remediationCR nhc;
          leaseDurationWithBuffer = leaseDuration + LeaseBuffer
      in case client_Get m s nodeName of
           Inl err \<Rightarrow> ((False, None, Some err), s, [Call_Get nodeName])
         | Inr node \<Rightarrow>
             (case RequestLease m s node leaseDurationWithBuffer of
                (Some err, s') \<Rightarrow>
                  (if isAlreadyHeldError err
                   then ((False, Some RequeueIfLeaseTaken, Some err), s',
                         [Call_Get nodeName, Call_RequestLease node leaseDurationWithBuffer])
                   else ((False, None, Some err), s',
                         [Call_Get nodeName, Call_RequestLease node leaseDurationWithBuffer]))
              | (None, s') \<Rightarrow>
                  ((True, Some leaseDuration, None), s',
                   [Call_Get nodeName, Call_RequestLease node leaseDurationWithBuffer])))"

text \<open>
  \<^verbatim>\<open>ManageLease\<close> reads the clock twice: \<open>now\<close> is the \<^verbatim>\<open>time.Now()\<close> inside
  \<^verbatim>\<open>isLeaseOverdue\<close>, \<open>later\<close> the one of the extension branch. In that branch
  \<^verbatim>\<open>l.Spec.RenewTime.Add(...)\<close> and \<^verbatim>\<open>*l.Spec.LeaseDurationSeconds\<close> dereference
  pointers the code has not checked: a nil one panics. The \<^verbatim>\<open>int32\<close> seconds are
  widened with their sign before the multiplication by \<^verbatim>\<open>time.Second\<close>.
\<close>

definition ManageLease ::
  "'s nhcLeaseManager \<Rightarrow> Time \<Rightarrow> Time \<Rightarrow> Unstructured \<Rightarrow> NodeHealthCheck
     \<Rightarrow> Unstructured list \<Rightarrow> 's \<Rightarrow> (Duration \<times> error option) Outcome \<times> 's \<times> Call list" where
  "ManageLease m now later remediationCR nhc remediationCrs s =
     (case client_Get m s (GetName remediationCR) of
        Inl err \<Rightarrow> (Return (0, Some err), s, [Call_Get (GetName remediationCR)])
      | Inr node \<Rightarrow>
          (let reads = [Call_Get (GetName remediationCR), Call_GetLease node]
           in case GetLease m s node of
                Inl err \<Rightarrow>
                  (if IsNotFound err then (Return (0, None), s, reads)
                   else (Return (0, Some err), s, reads))
              | Inr l \<Rightarrow>
                  (let exist = isRemediationsExist remediationCrs
                   in if \<not> exist \<and> isLeaseOwner l then
                        (case InvalidateLease m s node of
                           (err, s') \<Rightarrow> (Return (0, err), s', reads @ [Call_InvalidateLease node]))
                      else
                        (case isLeaseOverdue now l nhc remediationCrs of
                           (ok, Some err) \<Rightarrow> (Return (0, Some err), s, reads)
                         | (ok, None) \<Rightarrow>
                             if ok then
                               (case InvalidateLease m s node of
                                  (err, s') \<Rightarrow>
                                    (Return (0, err), s', reads @ [Call_InvalidateLease node]))
                             else
                               (let leaseExpectedDuration =
                                      getLeaseDurationForRemediations nhc remediationCrs;
                                    expectedExpiry = Add later leaseExpectedDuration
                                in case (RenewTime l, LeaseDurationSeconds l) of
                                     (Some renewTime, Some leaseDurationSeconds) \<Rightarrow>
                                       (let actualExpiry =
                                              Add renewTime (Second * scast leaseDurationSeconds)
                                        in if Before actualExpiry expectedExpiry then
                                             (case RequestLease m s node
                                                     (leaseExpectedDuration + LeaseBuffer) of
                                                (Some err, s') \<Rightarrow>
                                                  (Return (0, Some err), s',
                                                   reads @ [Call_RequestLease node
                                                     (leaseExpectedDuration + LeaseBuffer)])
                                              | (None, s') \<Rightarrow>
                                                  (Return (leaseExpectedDuration, None), s',
                                                   reads @ [Call_RequestLease node
                                                     (leaseExpectedDuration + LeaseBuffer)]))
                                           else (Return (leaseExpectedDuration, None), s, reads))
                                   | _ \<Rightarrow> (Panic, s, reads))))))"

text \<open>
  A test double with fixed answers. Its state counts the writes that took effect: a
  write that answers with an error leaves the state as it was.
\<close>

definition scripted ::
  "error + Node \<Rightarrow> error + Lease \<Rightarrow> error option \<Rightarrow> error option \<Rightarrow> nat nhcLeaseManager" where
  "scripted nodeAnswer leaseAnswer requestAnswer invalidateAnswer =
     \<lparr> client_Get = (\<lambda>s nodeName. nodeAnswer),
       GetLease = (\<lambda>s node. leaseAnswer),
       RequestLease = (\<lambda>s node ttl.
         (requestAnswer, if requestAnswer = None then Suc s else s)),
       InvalidateLease = (\<lambda>s node.
         (invalidateAnswer, if invalidateAnswer = None then Suc s else s)) \<rparr>"

section \<open>Concrete inputs\<close>

text \<open>
  Remediation CRs for the node \<open>node1\<close>, escalation policies and leases on which the
  results below are evaluated. \<open>escalationPolicy\<close> names the kind \<open>SoftReboot\<close> twice
  and has a step without timeout; \<open>negativePolicy\<close> has a timeout below zero, a value
  that \<^verbatim>\<open>time.Duration\<close> admits.
\<close>

definition node1 :: Node where
  "node1 = Node ''node1''"

definition softRebootCR :: Unstructured where
  "softRebootCR = \<lparr> GetName = ''node1'', GetKind = ''SoftReboot'' \<rparr>"

definition powerCycleCR :: Unstructured where
  "powerCycleCR = \<lparr> GetName = ''node1'', GetKind = ''PowerCycle'' \<rparr>"

definition lowerCaseCR :: Unstructured where
  "lowerCaseCR = \<lparr> GetName = ''node1'', GetKind = ''softreboot'' \<rparr>"

definition untimedCR :: Unstructured where
  "untimedCR = \<lparr> GetName = ''node1'', GetKind = ''Untimed'' \<rparr>"

definition noEscalation :: NodeHealthCheck where
  "noEscalation = \<lparr> EscalatingRemediations = [] \<rparr>"

definition escalationPolicy :: NodeHealthCheck where
  "escalationPolicy = \<lparr> EscalatingRemediations =
     [ \<lparr> RemediationTemplate_Kind = ''SoftRebootTemplate'', Timeout = 5 * Minute \<rparr>,
       \<lparr> RemediationTemplate_Kind = ''PowerCycleTemplate'', Timeout = 20 * Minute \<rparr>,
       \<lparr> RemediationTemplate_Kind = ''SoftRebootTemplate'', Timeout = 30 * Minute \<rparr>,
       \<lparr> RemediationTemplate_Kind = ''UntimedTemplate'', Timeout = 0 \<rparr> ] \<rparr>"

definition negativePolicy :: NodeHealthCheck where
  "negativePolicy = \<lparr> EscalatingRemediations =
     [ \<lparr> RemediationTemplate_Kind = ''SoftRebootTemplate'', Timeout = - (5 * Minute) \<rparr> ] \<rparr>"

text \<open>
  Two policies at the far end of \<^verbatim>\<open>time.Duration\<close>: a timeout of 876000 hours (a hundred
  years), and the largest timeout there is, \<open>2 ^ 63 - 1\<close> nanoseconds. Both are values
  that \<^verbatim>\<open>time.ParseDuration\<close> reads and \<^verbatim>\<open>metav1.Duration\<close> carries.
\<close>

definition centuryPolicy :: NodeHealthCheck where
  "centuryPolicy = \<lparr> EscalatingRemediations =
     [ \<lparr> RemediationTemplate_Kind = ''SoftRebootTemplate'', Timeout = 876000 * (60 * Minute) \<rparr> ] \<rparr>"

definition longestPolicy :: NodeHealthCheck where
  "longestPolicy = \<lparr> EscalatingRemediations =
     [ \<lparr> RemediationTemplate_Kind = ''SoftRebootTemplate'', Timeout = 9223372036854775807 \<rparr> ] \<rparr>"

text \<open>
  Leases acquired and renewed at instant 0 for 660 seconds: one held by this operator,
  one by another holder, one without holder, one without acquire time, and one held by
  this operator without renew time.
\<close>

definition ownLease :: Lease where
  "ownLease = \<lparr> Name = ''node-node1'', HolderIdentity = Some ''Node-Healthcheck'',
     LeaseDurationSeconds = Some 660, AcquireTime = Some 0, RenewTime = Some 0 \<rparr>"

definition foreignLease :: Lease where
  "foreignLease = \<lparr> Name = ''node-node1'', HolderIdentity = Some ''Other-Operator'',
     LeaseDurationSeconds = Some 660, AcquireTime = Some 0, RenewTime = Some 0 \<rparr>"

definition unheldLease :: Lease where
  "unheldLease = \<lparr> Name = ''node-node1'', HolderIdentity = None,
     LeaseDurationSeconds = Some 660, AcquireTime = Some 0, RenewTime = Some 0 \<rparr>"

definition malformedLease :: Lease where
  "malformedLease = \<lparr> Name = ''node-node1'', HolderIdentity = Some ''Other-Operator'',
     LeaseDurationSeconds = Some 660, AcquireTime = None, RenewTime = Some 0 \<rparr>"

definition unrenewedLease :: Lease where
  "unrenewedLease = \<lparr> Name = ''node-node1'', HolderIdentity = Some ''Node-Healthcheck'',
     LeaseDurationSeconds = Some 660, AcquireTime = Some 0, RenewTime = None \<rparr>"

section \<open>Evaluation of the concrete inputs\<close>

lemmas example_defs = node1_def softRebootCR_def powerCycleCR_def lowerCaseCR_def untimedCR_def
  noEscalation_def escalationPolicy_def negativePolicy_def centuryPolicy_def longestPolicy_def
  ownLease_def foreignLease_def unheldLease_def malformedLease_def unrenewedLease_def

lemmas duration_defs = Second_def Minute_def LeaseBuffer_def RequeueIfLeaseTaken_def
  DefaultLeaseDuration_def maxTimesToExtendLease_def

lemmas eval_defs = scripted_def example_defs duration_defs holderIdentity_def
  isLeaseOverdue_def calcLeaseExpiration_def getLeaseDurationForRemediations_def
  getLeaseDurationForRemediation_def getTimeoutForRemediation_def
  After_def Add_def Before_def isRemediationsExist_def isLeaseOwner_def

lemma TrimSuffix_examples:
  "TrimSuffix ''SoftRebootTemplate'' ''Template'' = ''SoftReboot''"
  "TrimSuffix ''PowerCycleTemplate'' ''Template'' = ''PowerCycle''"
  "TrimSuffix ''UntimedTemplate'' ''Template'' = ''Untimed''"
  by (simp_all add: TrimSuffix_def HasSuffix_def)

section \<open>Duration of one remediation\<close>

lemma getTimeoutForRemediation_loop_find:
  "getTimeoutForRemediation_loop k es =
     (case find (\<lambda>e. TrimSuffix (RemediationTemplate_Kind e) ''Template'' = k) es of
        None \<Rightarrow> 0
      | Some e \<Rightarrow> Timeout e)"
  by (induction es) simp_all

text \<open>
  Claim C5. \<open>getLeaseDurationForRemediation\<close> looks for the first step of the policy,
  in list order, whose template kind without the suffix \<open>Template\<close> is equal (as a byte
  string) to the kind of the remediation CR. It returns that step's timeout, unless
  there is no such step or the timeout of that first step is zero: then it returns
  \<open>DefaultLeaseDuration\<close>.
\<close>

theorem getLeaseDurationForRemediation_first_match:
  "getLeaseDurationForRemediation remediationCR nhc =
     (case find (\<lambda>step. TrimSuffix (RemediationTemplate_Kind step) ''Template'' =
                          GetKind remediationCR)
             (EscalatingRemediations nhc) of
        None \<Rightarrow> DefaultLeaseDuration
      | Some step \<Rightarrow> if Timeout step = 0 then DefaultLeaseDuration else Timeout step)"
  by (simp add: getLeaseDurationForRemediation_def getTimeoutForRemediation_def
        getTimeoutForRemediation_loop_find split: option.split)

text \<open>
  On \<open>escalationPolicy\<close>: the first of the two \<open>SoftReboot\<close> steps wins (5 minutes, not
  30), the kind \<open>softreboot\<close> matches nothing, and the step without timeout falls back
  to the default, as does any kind under an empty policy.
\<close>

theorem getLeaseDurationForRemediation_first_match_witness:
  "getLeaseDurationForRemediation softRebootCR escalationPolicy = 5 * Minute \<and>
   getLeaseDurationForRemediation powerCycleCR escalationPolicy = 20 * Minute \<and>
   getLeaseDurationForRemediation lowerCaseCR escalationPolicy = DefaultLeaseDuration \<and>
   getLeaseDurationForRemediation untimedCR escalationPolicy = DefaultLeaseDuration \<and>
   getLeaseDurationForRemediation softRebootCR noEscalation = DefaultLeaseDuration"
  using getLeaseDurationForRemediation_first_match [of softRebootCR escalationPolicy]
    getLeaseDurationForRemediation_first_match [of powerCycleCR escalationPolicy]
    getLeaseDurationForRemediation_first_match [of lowerCaseCR escalationPolicy]
    getLeaseDurationForRemediation_first_match [of untimedCR escalationPolicy]
    getLeaseDurationForRemediation_first_match [of softRebootCR noEscalation]
  by (simp add: example_defs TrimSuffix_examples Minute_def Second_def)

section \<open>Duration of a set of remediations\<close>

lemma getLeaseDurationForRemediations_loop_Max:
  "sint (getLeaseDurationForRemediations_loop nhc rems h) =
     Max (insert (sint h) ((\<lambda>cr. sint (getLeaseDurationForRemediation cr nhc)) ` set rems))"
proof (induction rems arbitrary: h)
  case Nil
  then show ?case by simp
next
  case (Cons cr rems)
  let ?f = "\<lambda>cr. sint (getLeaseDurationForRemediation cr nhc)"
  have fin: "finite (?f ` set rems)" by simp
  show ?case
  proof (cases "word_sless h (getLeaseDurationForRemediation cr nhc)")
    case True
    then have lt: "sint h < ?f cr" by (simp add: word_sless_alt)
    have "Max (insert (sint h) (?f ` set (cr # rems))) =
            max (sint h) (Max (insert (?f cr) (?f ` set rems)))"
      by simp
    also have "\<dots> = Max (insert (?f cr) (?f ` set rems))"
      using lt fin by (simp add: max_def Max_ge_iff)
    finally show ?thesis
      using True Cons.IH [of "getLeaseDurationForRemediation cr nhc"] by simp
  next
    case False
    then have ge: "?f cr \<le> sint h" by (simp add: word_sless_alt)
    have "insert (sint h) (?f ` set (cr # rems)) =
            insert (?f cr) (insert (sint h) (?f ` set rems))"
      by auto
    then have "Max (insert (sint h) (?f ` set (cr # rems))) =
            max (?f cr) (Max (insert (sint h) (?f ` set rems)))"
      by simp
    also have "\<dots> = Max (insert (sint h) (?f ` set rems))"
      using ge fin by (simp add: max_def Max_ge_iff)
    finally show ?thesis using False Cons.IH [of h] by simp
  qed
qed

lemma Max_insert_floor:
  fixes A :: "int set"
  assumes "finite A" "\<exists>a\<in>A. c \<le> a"
  shows "Max (insert c A) = Max A"
proof -
  from assms obtain a where a: "a \<in> A" "c \<le> a" by blast
  then have ne: "A \<noteq> {}" by blast
  have "c \<le> Max A" using a assms(1) by (meson Max_ge order_trans)
  then show ?thesis using assms(1) ne by (simp add: max_def)
qed

text \<open>
  Claim C4, as the code has it. With an empty policy
  \<open>getLeaseDurationForRemediations\<close> returns \<open>DefaultLeaseDuration\<close> whatever the
  remediations are. With a non-empty policy the running maximum starts at zero, so the
  result is the largest of zero and the durations of the given remediations (in the
  signed order of \<^verbatim>\<open>time.Duration\<close>): it is the maximum of the durations as soon as
  one of them is not negative, and it is zero when there is no remediation.
\<close>

theorem getLeaseDurationForRemediations_max_from_zero:
  "(EscalatingRemediations nhc = [] \<longrightarrow>
      getLeaseDurationForRemediations nhc remediationCrs = DefaultLeaseDuration) \<and>
   (EscalatingRemediations nhc \<noteq> [] \<longrightarrow>
      sint (getLeaseDurationForRemediations nhc remediationCrs) =
        Max (insert 0
          ((\<lambda>cr. sint (getLeaseDurationForRemediation cr nhc)) ` set remediationCrs))) \<and>
   (EscalatingRemediations nhc \<noteq> [] \<and>
    (\<exists>cr\<in>set remediationCrs. 0 \<le> sint (getLeaseDurationForRemediation cr nhc)) \<longrightarrow>
      sint (getLeaseDurationForRemediations nhc remediationCrs) =
        Max ((\<lambda>cr. sint (getLeaseDurationForRemediation cr nhc)) ` set remediationCrs)) \<and>
   (EscalatingRemediations nhc \<noteq> [] \<and> remediationCrs = [] \<longrightarrow>
      getLeaseDurationForRemediations nhc remediationCrs = 0)"
proof -
  let ?f = "\<lambda>cr. sint (getLeaseDurationForRemediation cr nhc)"
  have nonempty: "sint (getLeaseDurationForRemediations nhc remediationCrs) =
        Max (insert 0 (?f ` set remediationCrs))" if "EscalatingRemediations nhc \<noteq> []"
    using that
    by (simp add: getLeaseDurationForRemediations_def getLeaseDurationForRemediations_loop_Max)
  have floor: "Max (insert 0 (?f ` set remediationCrs)) = Max (?f ` set remediationCrs)"
    if "\<exists>cr\<in>set remediationCrs. 0 \<le> ?f cr"
    using that by (intro Max_insert_floor) auto
  show ?thesis
    using nonempty floor by (auto simp: getLeaseDurationForRemediations_def)
qed

text \<open>
  The example of the specification: under the policy with \<open>SoftReboot\<close> at 5 minutes
  and \<open>PowerCycle\<close> at 20 minutes, remediations of both kinds need 20 minutes.
\<close>

theorem getLeaseDurationForRemediations_max_from_zero_witness:
  "EscalatingRemediations escalationPolicy \<noteq> [] \<and>
   0 \<le> sint (getLeaseDurationForRemediation softRebootCR escalationPolicy) \<and>
   sint (getLeaseDurationForRemediations escalationPolicy [softRebootCR, powerCycleCR]) =
     Max {sint (5 * Minute), sint (20 * Minute)} \<and>
   getLeaseDurationForRemediations escalationPolicy [softRebootCR, powerCycleCR] = 20 * Minute \<and>
   getLeaseDurationForRemediations escalationPolicy [] = 0 \<and>
   EscalatingRemediations noEscalation = [] \<and>
   getLeaseDurationForRemediations noEscalation [softRebootCR, powerCycleCR] = 10 * Minute"
  using getLeaseDurationForRemediations_max_from_zero
          [of escalationPolicy "[softRebootCR, powerCycleCR]"]
    getLeaseDurationForRemediations_max_from_zero [of escalationPolicy "[]"]
    getLeaseDurationForRemediations_max_from_zero
          [of noEscalation "[softRebootCR, powerCycleCR]"]
  by (simp add: example_defs TrimSuffix_examples Minute_def Second_def
        DefaultLeaseDuration_def getLeaseDurationForRemediations_def
        getLeaseDurationForRemediation_def getTimeoutForRemediation_def word_sless_alt)

text \<open>
  The claim as written fails where every duration is negative: under \<open>negativePolicy\<close>
  the one remediation has the duration of minus five minutes, which is then the
  maximum over the remediations, and the result is zero.
\<close>

theorem getLeaseDurationForRemediations_negative_counterexample:
  "EscalatingRemediations negativePolicy \<noteq> [] \<and>
   getLeaseDurationForRemediation softRebootCR negativePolicy = - (5 * Minute) \<and>
   getLeaseDurationForRemediations negativePolicy [softRebootCR] = 0 \<and>
   sint (getLeaseDurationForRemediations negativePolicy [softRebootCR]) \<noteq>
     sint (getLeaseDurationForRemediation softRebootCR negativePolicy)"
  by (simp add: example_defs TrimSuffix_examples Minute_def Second_def
        DefaultLeaseDuration_def getLeaseDurationForRemediations_def
        getLeaseDurationForRemediation_def getTimeoutForRemediation_def word_sless_alt)

section \<open>Arithmetic of durations\<close>

lemma isLeaseOwner_iff: "isLeaseOwner l \<longleftrightarrow> HolderIdentity l = Some holderIdentity"
  by (auto simp: isLeaseOwner_def split: option.splits)

lemma sint_three_times:
  fixes d :: Duration
  assumes "- (2 ^ 63) \<le> 3 * sint d" "3 * sint d < 2 ^ 63"
  shows "sint (3 * d) = 3 * sint d"
proof -
  have "sint (3 * d) = signed_take_bit 63 (sint (3 :: Duration) * sint d)"
    by (simp add: sint_word_ariths)
  also have "sint (3 :: Duration) = 3" by simp
  also have "signed_take_bit 63 (3 * sint d) = 3 * sint d"
    using assms by (simp add: signed_take_bit_int_eq_self)
  finally show ?thesis .
qed

lemma sint_seconds:
  fixes ds :: "32 word"
  shows "sint (Second * scast ds) = 1000000000 * sint ds"
proof -
  have lo: "- (2 ^ 31) \<le> sint ds" using sint_greater_eq [of ds] by simp
  have hi: "sint ds < 2 ^ 31" using sint_less [of ds] by simp
  have sc: "sint (scast ds :: 64 word) = sint ds"
    by (simp add: sint_up_scast is_up)
  have "sint (Second * scast ds) = signed_take_bit 63 (sint Second * sint (scast ds :: 64 word))"
    by (simp add: sint_word_ariths)
  also have "sint Second = 1000000000" by (simp add: Second_def)
  also have "signed_take_bit 63 (1000000000 * sint (scast ds :: 64 word)) = 1000000000 * sint ds"
    unfolding sc using lo hi by (simp add: signed_take_bit_int_eq_self)
  finally show ?thesis .
qed

lemma Before_expiry:
  "Before (Add renewTime (Second * scast (seconds :: 32 word))) (Add later d) \<longleftrightarrow>
     renewTime + 1000000000 * sint seconds < later + sint d"
  by (simp add: Before_def Add_def sint_seconds)

section \<open>The paths of ManageLease\<close>

text \<open>
  One lemma for each way through \<open>ManageLease\<close>: what it returns, the state it leaves
  and the calls it has issued.
\<close>

lemma ManageLease_node_error:
  assumes "client_Get m s (GetName cr) = Inl err"
  shows "ManageLease m now later cr nhc rems s =
           (Return (0, Some err), s, [Call_Get (GetName cr)])"
  using assms by (simp add: ManageLease_def)

lemma ManageLease_lease_error:
  assumes "client_Get m s (GetName cr) = Inr node" "GetLease m s node = Inl err"
  shows "ManageLease m now later cr nhc rems s =
           (Return (0, if IsNotFound err then None else Some err), s,
            [Call_Get (GetName cr), Call_GetLease node])"
  using assms by (simp add: ManageLease_def)

lemma ManageLease_release_no_remediations:
  assumes "client_Get m s (GetName cr) = Inr node" "GetLease m s node = Inr l"
    and "rems = []" "isLeaseOwner l"
  shows "ManageLease m now later cr nhc rems s =
           (Return (0, fst (InvalidateLease m s node)), snd (InvalidateLease m s node),
            [Call_Get (GetName cr), Call_GetLease node, Call_InvalidateLease node])"
  using assms by (simp add: ManageLease_def isRemediationsExist_def split: prod.split)

lemma ManageLease_malformed:
  assumes "client_Get m s (GetName cr) = Inr node" "GetLease m s node = Inr l"
    and "rems \<noteq> [] \<or> \<not> isLeaseOwner l"
    and "isLeaseOverdue now l nhc rems = (ok, Some err)"
  shows "ManageLease m now later cr nhc rems s =
           (Return (0, Some err), s, [Call_Get (GetName cr), Call_GetLease node])"
  using assms by (auto simp: ManageLease_def isRemediationsExist_def)

lemma ManageLease_release_overdue:
  assumes "client_Get m s (GetName cr) = Inr node" "GetLease m s node = Inr l"
    and "rems \<noteq> [] \<or> \<not> isLeaseOwner l"
    and "isLeaseOverdue now l nhc rems = (True, None)"
  shows "ManageLease m now later cr nhc rems s =
           (Return (0, fst (InvalidateLease m s node)), snd (InvalidateLease m s node),
            [Call_Get (GetName cr), Call_GetLease node, Call_InvalidateLease node])"
  using assms by (auto simp: ManageLease_def isRemediationsExist_def split: prod.split)

lemma ManageLease_extend:
  assumes "client_Get m s (GetName cr) = Inr node" "GetLease m s node = Inr l"
    and "rems \<noteq> [] \<or> \<not> isLeaseOwner l"
    and "isLeaseOverdue now l nhc rems = (False, None)"
    and "RenewTime l = Some renewTime" "LeaseDurationSeconds l = Some seconds"
    and "Before (Add renewTime (Second * scast seconds))
           (Add later (getLeaseDurationForRemediations nhc rems))"
  shows "ManageLease m now later cr nhc rems s =
           (let d = getLeaseDurationForRemediations nhc rems;
                answer = RequestLease m s node (d + LeaseBuffer)
            in (Return (case fst answer of None \<Rightarrow> (d, None) | Some err \<Rightarrow> (0, Some err)),
                snd answer,
                [Call_Get (GetName cr), Call_GetLease node,
                 Call_RequestLease node (d + LeaseBuffer)]))"
  using assms
  by (auto simp: ManageLease_def isRemediationsExist_def Let_def split: prod.split option.split)

lemma ManageLease_no_extend:
  assumes "client_Get m s (GetName cr) = Inr node" "GetLease m s node = Inr l"
    and "rems \<noteq> [] \<or> \<not> isLeaseOwner l"
    and "isLeaseOverdue now l nhc rems = (False, None)"
    and "RenewTime l = Some renewTime" "LeaseDurationSeconds l = Some seconds"
    and "\<not> Before (Add renewTime (Second * scast seconds))
           (Add later (getLeaseDurationForRemediations nhc rems))"
  shows "ManageLease m now later cr nhc rems s =
           (Return (getLeaseDurationForRemediations nhc rems, None), s,
            [Call_Get (GetName cr), Call_GetLease node])"
  using assms
  by (auto simp: ManageLease_def isRemediationsExist_def Let_def)

lemma ManageLease_nil_pointer:
  assumes "client_Get m s (GetName cr) = Inr node" "GetLease m s node = Inr l"
    and "rems \<noteq> [] \<or> \<not> isLeaseOwner l"
    and "isLeaseOverdue now l nhc rems = (False, None)"
    and "RenewTime l = None \<or> LeaseDurationSeconds l = None"
  shows "ManageLease m now later cr nhc rems s =
           (Panic, s, [Call_Get (GetName cr), Call_GetLease node])"
  using assms
  by (auto simp: ManageLease_def isRemediationsExist_def Let_def split: option.split)

section \<open>Overdue leases\<close>

lemma isLeaseOverdue_empty_policy:
  assumes "EscalatingRemediations nhc = []" "AcquireTime l = Some acquireTime"
  shows "isLeaseOverdue now l nhc rems = (acquireTime + 3 * sint DefaultLeaseDuration < now, None)"
  using assms
  by (simp add: isLeaseOverdue_def calcLeaseExpiration_def getLeaseDurationForRemediations_def
        After_def Add_def duration_defs)

text \<open>
  Claim C1, as the code has it. \<open>isLeaseOverdue\<close> returns an error exactly when the
  lease has no acquire time; it then returns \<open>False\<close> with the error, and \<open>ManageLease\<close>,
  which calls it, returns the error without releasing or requesting anything. When the
  acquire time is set there is no error and the result is \<open>True\<close> exactly when the
  current time is after the acquire time plus \<open>(maxTimesToExtendLease + 1)\<close> times the
  required duration, the product being the one of \<^verbatim>\<open>time.Duration\<close>, which wraps around
  at 64 bits. \<open>maxTimesToExtendLease + 1\<close> is three, and whenever three times the required
  duration lies between \<open>- 2 ^ 63\<close> and \<open>2 ^ 63 - 1\<close> nanoseconds the bound is the acquire
  time plus three times the required duration.
\<close>

theorem isLeaseOverdue_bound:
  "(snd (isLeaseOverdue now l nhc rems) \<noteq> None \<longleftrightarrow> AcquireTime l = None) \<and>
   (AcquireTime l = None \<longrightarrow>
      isLeaseOverdue now l nhc rems = (False, Some (Errorf ''lease Spec.AcquireTime is nil''))) \<and>
   (AcquireTime l = None \<and> client_Get m s (GetName cr) = Inr node \<and> GetLease m s node = Inr l \<and>
    (rems \<noteq> [] \<or> \<not> isLeaseOwner l) \<longrightarrow>
      ManageLease m now later cr nhc rems s =
        (Return (0, Some (Errorf ''lease Spec.AcquireTime is nil'')), s,
         [Call_Get (GetName cr), Call_GetLease node])) \<and>
   (\<forall>acquireTime. AcquireTime l = Some acquireTime \<longrightarrow>
      isLeaseOverdue now l nhc rems =
        (acquireTime +
           sint ((maxTimesToExtendLease + 1) * getLeaseDurationForRemediations nhc rems) < now,
         None)) \<and>
   maxTimesToExtendLease + 1 = 3 \<and>
   (\<forall>acquireTime. AcquireTime l = Some acquireTime \<and>
      - (2 ^ 63) \<le> 3 * sint (getLeaseDurationForRemediations nhc rems) \<and>
      3 * sint (getLeaseDurationForRemediations nhc rems) < 2 ^ 63 \<longrightarrow>
      isLeaseOverdue now l nhc rems =
        (acquireTime + 3 * sint (getLeaseDurationForRemediations nhc rems) < now, None))"
proof -
  let ?d = "getLeaseDurationForRemediations nhc rems"
  have three: "maxTimesToExtendLease + 1 = 3" by (simp add: maxTimesToExtendLease_def)
  have err: "isLeaseOverdue now l nhc rems = (False, Some (Errorf ''lease Spec.AcquireTime is nil''))"
    if "AcquireTime l = None"
    using that by (simp add: isLeaseOverdue_def)
  have ok: "isLeaseOverdue now l nhc rems =
        (acquireTime + sint ((maxTimesToExtendLease + 1) * ?d) < now, None)"
    if "AcquireTime l = Some acquireTime" for acquireTime
    using that by (simp add: isLeaseOverdue_def calcLeaseExpiration_def After_def Add_def)
  have ok3: "isLeaseOverdue now l nhc rems = (acquireTime + 3 * sint ?d < now, None)"
    if "AcquireTime l = Some acquireTime" "- (2 ^ 63) \<le> 3 * sint ?d" "3 * sint ?d < 2 ^ 63"
    for acquireTime
    using ok [OF that(1)] sint_three_times [OF that(2,3)] by (simp only: three)
  have iff: "snd (isLeaseOverdue now l nhc rems) \<noteq> None \<longleftrightarrow> AcquireTime l = None"
    by (cases "AcquireTime l") (simp_all add: err ok)
  have manage: "ManageLease m now later cr nhc rems s =
        (Return (0, Some (Errorf ''lease Spec.AcquireTime is nil'')), s,
         [Call_Get (GetName cr), Call_GetLease node])"
    if "AcquireTime l = None" "client_Get m s (GetName cr) = Inr node" "GetLease m s node = Inr l"
      "rems \<noteq> [] \<or> \<not> isLeaseOwner l"
    using ManageLease_malformed [OF that(2,3,4) err [OF that(1)]] .
  show ?thesis
    using three err ok ok3 iff manage by blast
qed


text \<open>
  The example of the specification: a lease acquired at instant 0 under the default
  duration of ten minutes is not overdue at 30 minutes and is overdue a nanosecond
  later; a lease without acquire time gives the error, and \<open>ManageLease\<close> then
  returns it without any write.
\<close>

theorem isLeaseOverdue_bound_witness:
  "AcquireTime ownLease = Some 0 \<and>
   getLeaseDurationForRemediations noEscalation [softRebootCR] = 10 * Minute \<and>
   isLeaseOverdue 1800000000000 ownLease noEscalation [softRebootCR] = (False, None) \<and>
   isLeaseOverdue 1800000000001 ownLease noEscalation [softRebootCR] = (True, None) \<and>
   AcquireTime malformedLease = None \<and>
   isLeaseOverdue 1800000000001 malformedLease noEscalation [softRebootCR] =
     (False, Some (Errorf ''lease Spec.AcquireTime is nil'')) \<and>
   ManageLease (scripted (Inr node1) (Inr malformedLease) None None)
       1800000000001 1800000000001 softRebootCR noEscalation [softRebootCR] 0 =
     (Return (0, Some (Errorf ''lease Spec.AcquireTime is nil'')), 0,
      [Call_Get ''node1'', Call_GetLease node1])"
  using isLeaseOverdue_bound [where l = ownLease and now = 1800000000000 and nhc = noEscalation
              and rems = "[softRebootCR]"]
    isLeaseOverdue_bound [where l = ownLease and now = 1800000000001 and nhc = noEscalation
              and rems = "[softRebootCR]"]
    isLeaseOverdue_bound [where l = malformedLease and now = 1800000000001 and nhc = noEscalation
              and rems = "[softRebootCR]" and later = 1800000000001
              and m = "scripted (Inr node1) (Inr malformedLease) None None"
              and s = 0 and cr = softRebootCR and node = node1]
  by (simp add: example_defs duration_defs getLeaseDurationForRemediations_def scripted_def)

text \<open>
  The bound of the claim, read in the integers, fails where the product leaves 64 bits.
  Under \<open>centuryPolicy\<close> the required duration is 876000 hours; three times that wraps
  around to a negative duration, and the lease acquired at instant 0 is overdue at
  instant 0 already, three hundred years before the bound of the claim.
\<close>

theorem isLeaseOverdue_bound_overflow_counterexample:
  "AcquireTime ownLease = Some 0 \<and>
   sint (getLeaseDurationForRemediations centuryPolicy [softRebootCR]) = 3153600000000000000 \<and>
   isLeaseOverdue 0 ownLease centuryPolicy [softRebootCR] = (True, None) \<and>
   \<not> (0 + 3 * sint (getLeaseDurationForRemediations centuryPolicy [softRebootCR]) < (0 :: int))"
  by (simp add: eval_defs TrimSuffix_examples word_sless_alt)

section \<open>ManageLease without remediations\<close>

text \<open>
  Claim C2, as the code has it. When no remediation is left and the fetched lease is
  held by \<open>holderIdentity\<close>, \<open>ManageLease\<close> releases the lease and returns zero with the
  error of the release, under every policy. When no remediation is left, the policy has
  no steps and the holder differs, the lease is not released for lack of remediations
  but goes through the overdue check and the extension like any other lease, with the
  default duration as the required one:
  \<^item> without acquire time the error is returned and nothing is written;
  \<^item> overdue, that is when the current time is after the acquire time plus three times
    the default duration, the lease is released whoever holds it, and zero is returned
    with the error of the release;
  \<^item> not overdue, with renew time and duration in seconds set, the lease is requested
    again for the default duration plus the buffer when its expiry is before the
    expected one, and nothing is written otherwise; the default duration is returned.
\<close>

theorem ManageLease_no_remediations:
  assumes "client_Get m s (GetName cr) = Inr node" and "GetLease m s node = Inr l"
  shows
  "(HolderIdentity l = Some holderIdentity \<longrightarrow>
      ManageLease m now later cr nhc [] s =
        (Return (0, fst (InvalidateLease m s node)), snd (InvalidateLease m s node),
         [Call_Get (GetName cr), Call_GetLease node, Call_InvalidateLease node])) \<and>
   (HolderIdentity l \<noteq> Some holderIdentity \<and> EscalatingRemediations nhc = [] \<longrightarrow>
      (AcquireTime l = None \<longrightarrow>
         ManageLease m now later cr nhc [] s =
           (Return (0, Some (Errorf ''lease Spec.AcquireTime is nil'')), s,
            [Call_Get (GetName cr), Call_GetLease node])) \<and>
      (\<forall>acquireTime. AcquireTime l = Some acquireTime \<and>
         acquireTime + 3 * sint DefaultLeaseDuration < now \<longrightarrow>
         ManageLease m now later cr nhc [] s =
           (Return (0, fst (InvalidateLease m s node)), snd (InvalidateLease m s node),
            [Call_Get (GetName cr), Call_GetLease node, Call_InvalidateLease node])) \<and>
      (\<forall>acquireTime renewTime seconds. AcquireTime l = Some acquireTime \<and>
         \<not> acquireTime + 3 * sint DefaultLeaseDuration < now \<and>
         RenewTime l = Some renewTime \<and> LeaseDurationSeconds l = Some seconds \<longrightarrow>
         ManageLease m now later cr nhc [] s =
           (if renewTime + 1000000000 * sint seconds < later + sint DefaultLeaseDuration
            then (Return (case fst (RequestLease m s node (DefaultLeaseDuration + LeaseBuffer)) of
                            None \<Rightarrow> (DefaultLeaseDuration, None)
                          | Some err \<Rightarrow> (0, Some err)),
                  snd (RequestLease m s node (DefaultLeaseDuration + LeaseBuffer)),
                  [Call_Get (GetName cr), Call_GetLease node,
                   Call_RequestLease node (DefaultLeaseDuration + LeaseBuffer)])
            else (Return (DefaultLeaseDuration, None), s,
                  [Call_Get (GetName cr), Call_GetLease node]))))"
proof -
  note got = assms
  have owner: "ManageLease m now later cr nhc [] s =
        (Return (0, fst (InvalidateLease m s node)), snd (InvalidateLease m s node),
         [Call_Get (GetName cr), Call_GetLease node, Call_InvalidateLease node])"
    if "HolderIdentity l = Some holderIdentity"
    using that ManageLease_release_no_remediations [OF got refl]
    by (simp add: isLeaseOwner_iff)
  have malformed: "ManageLease m now later cr nhc [] s =
        (Return (0, Some (Errorf ''lease Spec.AcquireTime is nil'')), s,
         [Call_Get (GetName cr), Call_GetLease node])"
    if "HolderIdentity l \<noteq> Some holderIdentity" "AcquireTime l = None"
    using that ManageLease_malformed [OF got, where ok = False and rems = "[]"]
    by (simp add: isLeaseOwner_iff isLeaseOverdue_def)
  have overdue: "ManageLease m now later cr nhc [] s =
        (Return (0, fst (InvalidateLease m s node)), snd (InvalidateLease m s node),
         [Call_Get (GetName cr), Call_GetLease node, Call_InvalidateLease node])"
    if h: "HolderIdentity l \<noteq> Some holderIdentity" "EscalatingRemediations nhc = []"
      "AcquireTime l = Some acquireTime" "acquireTime + 3 * sint DefaultLeaseDuration < now"
    for acquireTime
  proof -
    have no: "[] \<noteq> [] \<or> \<not> isLeaseOwner l" using h(1) by (simp add: isLeaseOwner_iff)
    have od: "isLeaseOverdue now l nhc [] = (True, None)"
      using isLeaseOverdue_empty_policy [OF h(2,3), of now "[]"] h(4) by simp
    show ?thesis using ManageLease_release_overdue [OF got no od] .
  qed
  have fresh: "ManageLease m now later cr nhc [] s =
           (if renewTime + 1000000000 * sint seconds < later + sint DefaultLeaseDuration
            then (Return (case fst (RequestLease m s node (DefaultLeaseDuration + LeaseBuffer)) of
                            None \<Rightarrow> (DefaultLeaseDuration, None)
                          | Some err \<Rightarrow> (0, Some err)),
                  snd (RequestLease m s node (DefaultLeaseDuration + LeaseBuffer)),
                  [Call_Get (GetName cr), Call_GetLease node,
                   Call_RequestLease node (DefaultLeaseDuration + LeaseBuffer)])
            else (Return (DefaultLeaseDuration, None), s,
                  [Call_Get (GetName cr), Call_GetLease node]))"
    if h: "HolderIdentity l \<noteq> Some holderIdentity" "EscalatingRemediations nhc = []"
      "AcquireTime l = Some acquireTime" "\<not> acquireTime + 3 * sint DefaultLeaseDuration < now"
      "RenewTime l = Some renewTime" "LeaseDurationSeconds l = Some seconds"
    for acquireTime renewTime seconds
  proof -
    have no: "[] \<noteq> [] \<or> \<not> isLeaseOwner l" using h(1) by (simp add: isLeaseOwner_iff)
    have od: "isLeaseOverdue now l nhc [] = (False, None)"
      using isLeaseOverdue_empty_policy [OF h(2,3), of now "[]"] h(4) by simp
    have d: "getLeaseDurationForRemediations nhc [] = DefaultLeaseDuration"
      using h(2) by (simp add: getLeaseDurationForRemediations_def)
    show ?thesis
    proof (cases "Before (Add renewTime (Second * scast seconds))
           (Add later (getLeaseDurationForRemediations nhc []))")
      case True
      show ?thesis
        using True ManageLease_extend [OF got no od h(5,6) True]
        by (simp add: Before_expiry Let_def d)
    next
      case False
      show ?thesis
        using False ManageLease_no_extend [OF got no od h(5,6) False]
        by (simp add: Before_expiry d)
    qed
  qed
  show ?thesis
    using owner malformed overdue fresh by blast
qed

text \<open>
  The claim as written fails for a lease of another holder, with no remediation left
  and no policy. Acquired and renewed at instant 0 for 660 seconds, it is released one
  nanosecond after 30 minutes, when it is overdue; and it is requested again for eleven
  minutes at two minutes, when it is not overdue and its expiry at eleven minutes is
  before the expected one at twelve.
\<close>

theorem ManageLease_no_remediations_foreign_counterexample:
  "HolderIdentity foreignLease \<noteq> Some holderIdentity \<and>
   ManageLease (scripted (Inr node1) (Inr foreignLease) None None)
       1800000000001 1800000000001 softRebootCR noEscalation [] 0 =
     (Return (0, None), 1,
      [Call_Get ''node1'', Call_GetLease node1, Call_InvalidateLease node1]) \<and>
   ManageLease (scripted (Inr node1) (Inr foreignLease) None None)
       120000000000 120000000000 softRebootCR noEscalation [] 0 =
     (Return (10 * Minute, None), 1,
      [Call_Get ''node1'', Call_GetLease node1, Call_RequestLease node1 (11 * Minute)])"
  by (simp add: ManageLease_def eval_defs)

text \<open>
  The own lease is released at once, also under a policy with steps. Under the empty
  policy the lease of another holder is left as it is at instant 0, requested again at
  two minutes, released after thirty minutes, and gives the error when it has no
  acquire time.
\<close>

theorem ManageLease_no_remediations_witness:
  "client_Get (scripted (Inr node1) (Inr ownLease) None None) 0 (GetName softRebootCR) = Inr node1 \<and>
   GetLease (scripted (Inr node1) (Inr ownLease) None None) 0 node1 = Inr ownLease \<and>
   HolderIdentity ownLease = Some holderIdentity \<and>
   ManageLease (scripted (Inr node1) (Inr ownLease) None None)
       0 0 softRebootCR escalationPolicy [] 0 =
     (Return (0, None), 1,
      [Call_Get ''node1'', Call_GetLease node1, Call_InvalidateLease node1]) \<and>
   HolderIdentity foreignLease \<noteq> Some holderIdentity \<and>
   EscalatingRemediations noEscalation = [] \<and>
   AcquireTime foreignLease = Some 0 \<and> RenewTime foreignLease = Some 0 \<and>
   LeaseDurationSeconds foreignLease = Some 660 \<and>
   ManageLease (scripted (Inr node1) (Inr foreignLease) None None)
       0 0 softRebootCR noEscalation [] 0 =
     (Return (10 * Minute, None), 0, [Call_Get ''node1'', Call_GetLease node1]) \<and>
   ManageLease (scripted (Inr node1) (Inr foreignLease) None None)
       120000000000 120000000000 softRebootCR noEscalation [] 0 =
     (Return (10 * Minute, None), 1,
      [Call_Get ''node1'', Call_GetLease node1, Call_RequestLease node1 (11 * Minute)]) \<and>
   ManageLease (scripted (Inr node1) (Inr foreignLease) None None)
       1800000000001 1800000000001 softRebootCR noEscalation [] 0 =
     (Return (0, None), 1,
      [Call_Get ''node1'', Call_GetLease node1, Call_InvalidateLease node1]) \<and>
   HolderIdentity malformedLease \<noteq> Some holderIdentity \<and> AcquireTime malformedLease = None \<and>
   ManageLease (scripted (Inr node1) (Inr malformedLease) None None)
       0 0 softRebootCR noEscalation [] 0 =
     (Return (0, Some (Errorf ''lease Spec.AcquireTime is nil'')), 0,
      [Call_Get ''node1'', Call_GetLease node1])"
  using ManageLease_no_remediations [where m = "scripted (Inr node1) (Inr ownLease) None None" and s = 0
      and cr = softRebootCR and node = node1 and l = ownLease and now = 0 and later = 0
      and nhc = escalationPolicy]
    ManageLease_no_remediations [where m = "scripted (Inr node1) (Inr foreignLease) None None" and s = 0
      and cr = softRebootCR and node = node1 and l = foreignLease and now = 0 and later = 0
      and nhc = noEscalation]
    ManageLease_no_remediations [where m = "scripted (Inr node1) (Inr foreignLease) None None" and s = 0
      and cr = softRebootCR and node = node1 and l = foreignLease and now = 120000000000
      and later = 120000000000 and nhc = noEscalation]
    ManageLease_no_remediations [where m = "scripted (Inr node1) (Inr foreignLease) None None" and s = 0
      and cr = softRebootCR and node = node1 and l = foreignLease and now = 1800000000001
      and later = 1800000000001 and nhc = noEscalation]
    ManageLease_no_remediations [where m = "scripted (Inr node1) (Inr malformedLease) None None" and s = 0
      and cr = softRebootCR and node = node1 and l = malformedLease and now = 0 and later = 0
      and nhc = noEscalation]
  by (simp add: scripted_def example_defs duration_defs holderIdentity_def)

section \<open>No remediation under a policy with steps\<close>

text \<open>
  Claim C9. \<open>ManageLease\<close> is called with no remediation, under a policy that has
  steps, and fetches a lease whose holder is not \<open>holderIdentity\<close> and whose acquire
  time is set. Then the required duration is zero, the expiration that
  \<open>calcLeaseExpiration\<close> computes is the acquire time itself, \<open>isLeaseOverdue\<close> says
  whether the current time is after the acquire time, and whenever it is, the lease is
  released through \<open>InvalidateLease\<close>, although another holder has it.
\<close>

theorem ManageLease_zero_duration_release:
  assumes "client_Get m s (GetName cr) = Inr node" and "GetLease m s node = Inr l"
    and "EscalatingRemediations nhc \<noteq> []"
    and "HolderIdentity l \<noteq> Some holderIdentity"
    and "AcquireTime l = Some acquireTime"
  shows
  "getLeaseDurationForRemediations nhc [] = 0 \<and>
   calcLeaseExpiration acquireTime (getLeaseDurationForRemediations nhc []) = acquireTime \<and>
   isLeaseOverdue now l nhc [] = (acquireTime < now, None) \<and>
   (acquireTime < now \<longrightarrow>
      ManageLease m now later cr nhc [] s =
        (Return (0, fst (InvalidateLease m s node)), snd (InvalidateLease m s node),
         [Call_Get (GetName cr), Call_GetLease node, Call_InvalidateLease node]))"
proof -
  have d: "getLeaseDurationForRemediations nhc [] = 0"
    using assms(3) by (simp add: getLeaseDurationForRemediations_def)
  have bound: "calcLeaseExpiration acquireTime (getLeaseDurationForRemediations nhc []) = acquireTime"
    by (simp add: d calcLeaseExpiration_def Add_def)
  have od: "isLeaseOverdue now l nhc [] = (acquireTime < now, None)"
    using assms(5) by (simp add: isLeaseOverdue_def bound After_def)
  have no: "[] \<noteq> [] \<or> \<not> isLeaseOwner l" using assms(4) by (simp add: isLeaseOwner_iff)
  have rel: "ManageLease m now later cr nhc [] s =
        (Return (0, fst (InvalidateLease m s node)), snd (InvalidateLease m s node),
         [Call_Get (GetName cr), Call_GetLease node, Call_InvalidateLease node])"
    if "acquireTime < now"
  proof -
    have "isLeaseOverdue now l nhc [] = (True, None)" using od that by simp
    then show ?thesis using ManageLease_release_overdue [OF assms(1,2) no] by simp
  qed
  show ?thesis using d bound od rel by blast
qed

text \<open>
  Under \<open>escalationPolicy\<close> the lease of the other operator, acquired at instant 0, is
  not overdue at instant 0 and is released one nanosecond later.
\<close>

theorem ManageLease_zero_duration_release_witness:
  "client_Get (scripted (Inr node1) (Inr foreignLease) None None) 0 (GetName softRebootCR) = Inr node1 \<and>
   GetLease (scripted (Inr node1) (Inr foreignLease) None None) 0 node1 = Inr foreignLease \<and>
   EscalatingRemediations escalationPolicy \<noteq> [] \<and>
   HolderIdentity foreignLease \<noteq> Some holderIdentity \<and>
   AcquireTime foreignLease = Some 0 \<and>
   getLeaseDurationForRemediations escalationPolicy [] = 0 \<and>
   isLeaseOverdue 1 foreignLease escalationPolicy [] = (True, None) \<and>
   isLeaseOverdue 0 foreignLease escalationPolicy [] = (False, None) \<and>
   ManageLease (scripted (Inr node1) (Inr foreignLease) None None)
       1 1 softRebootCR escalationPolicy [] 0 =
     (Return (0, None), 1,
      [Call_Get ''node1'', Call_GetLease node1, Call_InvalidateLease node1])"
proof -
  note at_one = ManageLease_zero_duration_release
      [where m = "scripted (Inr node1) (Inr foreignLease) None None" and s = 0
        and cr = softRebootCR and node = node1 and l = foreignLease and nhc = escalationPolicy
        and acquireTime = 0 and now = 1 and later = 1]
  note at_zero = ManageLease_zero_duration_release
      [where m = "scripted (Inr node1) (Inr foreignLease) None None" and s = 0
        and cr = softRebootCR and node = node1 and l = foreignLease and nhc = escalationPolicy
        and acquireTime = 0 and now = 0 and later = 0]
  have get: "client_Get (scripted (Inr node1) (Inr foreignLease) None None) 0 (GetName softRebootCR) = Inr node1"
    by (simp add: scripted_def)
  have lease: "GetLease (scripted (Inr node1) (Inr foreignLease) None None) 0 node1 = Inr foreignLease"
    by (simp add: scripted_def)
  have policy: "EscalatingRemediations escalationPolicy \<noteq> []" by (simp add: escalationPolicy_def)
  have holder: "HolderIdentity foreignLease \<noteq> Some holderIdentity"
    by (simp add: foreignLease_def holderIdentity_def)
  have acq: "AcquireTime foreignLease = Some 0" by (simp add: foreignLease_def)
  have inv: "InvalidateLease (scripted (Inr node1) (Inr foreignLease) None None) 0 node1 = (None, 1)"
    by (simp add: scripted_def)
  have name: "GetName softRebootCR = ''node1''" by (simp add: softRebootCR_def)
  show ?thesis
    using at_one [OF get lease policy holder acq] at_zero [OF get lease policy holder acq]
      get lease policy holder acq
    by (simp add: inv name)
qed

section \<open>Leases without holder\<close>

text \<open>
  Claim C10. For a lease whose holder identity is absent, \<open>isLeaseOwner\<close> returns
  \<open>False\<close>: it is a total function that looks at the holder only when there is one. So
  when \<open>ManageLease\<close> is called with no remediation and fetches such a lease, the
  release for lack of remediations is not taken: \<open>InvalidateLease\<close> is among the calls
  exactly when \<open>isLeaseOverdue\<close> reports the lease overdue.
\<close>

theorem isLeaseOwner_nil_holder:
  "(HolderIdentity l = None \<longrightarrow> \<not> isLeaseOwner l) \<and>
   (HolderIdentity l = None \<and> client_Get m s (GetName cr) = Inr node \<and>
    GetLease m s node = Inr l \<longrightarrow>
      (Call_InvalidateLease node \<in> set (snd (snd (ManageLease m now later cr nhc [] s))) \<longleftrightarrow>
         isLeaseOverdue now l nhc [] = (True, None)))"
proof -
  have notowner: "\<not> isLeaseOwner l" if "HolderIdentity l = None"
    using that by (simp add: isLeaseOwner_def)
  have release: "Call_InvalidateLease node \<in> set (snd (snd (ManageLease m now later cr nhc [] s))) \<longleftrightarrow>
         isLeaseOverdue now l nhc [] = (True, None)"
    if h: "HolderIdentity l = None" "client_Get m s (GetName cr) = Inr node"
      "GetLease m s node = Inr l"
  proof -
    have no: "[] \<noteq> [] \<or> \<not> isLeaseOwner l" using notowner [OF h(1)] by simp
    obtain ok err where od: "isLeaseOverdue now l nhc [] = (ok, err)"
      by (cases "isLeaseOverdue now l nhc []")
    show ?thesis
    proof (cases err)
      case (Some e)
      then show ?thesis using od ManageLease_malformed [OF h(2,3) no, of now nhc ok e later] by simp
    next
      case None
      show ?thesis
      proof (cases ok)
        case True
        then show ?thesis
          using od None ManageLease_release_overdue [OF h(2,3) no, of now nhc later] by simp
      next
        case False
        have od': "isLeaseOverdue now l nhc [] = (False, None)" using od None False by simp
        show ?thesis
        proof (cases "RenewTime l = None \<or> LeaseDurationSeconds l = None")
          case True
          then show ?thesis
            using od' ManageLease_nil_pointer [OF h(2,3) no od', of later] by simp
        next
          case unset: False
          then obtain renewTime seconds
            where fields: "RenewTime l = Some renewTime" "LeaseDurationSeconds l = Some seconds"
            by auto
          show ?thesis
          proof (cases "Before (Add renewTime (Second * scast seconds))
                   (Add later (getLeaseDurationForRemediations nhc []))")
            case True
            then show ?thesis
              using od' ManageLease_extend [OF h(2,3) no od' fields True] by (simp add: Let_def)
          next
            case False
            then show ?thesis
              using od' ManageLease_no_extend [OF h(2,3) no od' fields False] by simp
          qed
        qed
      qed
    qed
  qed
  show ?thesis using notowner release by blast
qed

text \<open>
  The lease without holder is not released at instant 0, where it is not overdue, and
  it is released after thirty minutes, where it is.
\<close>

theorem isLeaseOwner_nil_holder_witness:
  "HolderIdentity unheldLease = None \<and> \<not> isLeaseOwner unheldLease \<and>
   client_Get (scripted (Inr node1) (Inr unheldLease) None None) 0 (GetName softRebootCR) = Inr node1 \<and>
   GetLease (scripted (Inr node1) (Inr unheldLease) None None) 0 node1 = Inr unheldLease \<and>
   isLeaseOverdue 0 unheldLease noEscalation [] = (False, None) \<and>
   Call_InvalidateLease node1 \<notin> set (snd (snd (ManageLease
       (scripted (Inr node1) (Inr unheldLease) None None) 0 0 softRebootCR noEscalation [] 0))) \<and>
   isLeaseOverdue 1800000000001 unheldLease noEscalation [] = (True, None) \<and>
   Call_InvalidateLease node1 \<in> set (snd (snd (ManageLease
       (scripted (Inr node1) (Inr unheldLease) None None)
       1800000000001 1800000000001 softRebootCR noEscalation [] 0)))"
proof -
  note fresh = isLeaseOwner_nil_holder
      [where l = unheldLease and m = "scripted (Inr node1) (Inr unheldLease) None None" and s = 0
        and cr = softRebootCR and node = node1 and now = 0 and later = 0 and nhc = noEscalation]
  note stale = isLeaseOwner_nil_holder
      [where l = unheldLease and m = "scripted (Inr node1) (Inr unheldLease) None None" and s = 0
        and cr = softRebootCR and node = node1 and now = 1800000000001
        and later = 1800000000001 and nhc = noEscalation]
  have od: "isLeaseOverdue 0 unheldLease noEscalation [] = (False, None)"
    by (simp add: eval_defs)
  have od': "isLeaseOverdue 1800000000001 unheldLease noEscalation [] = (True, None)"
    by (simp add: eval_defs)
  have holder: "HolderIdentity unheldLease = None" by (simp add: unheldLease_def)
  have get: "client_Get (scripted (Inr node1) (Inr unheldLease) None None) 0 (GetName softRebootCR) = Inr node1"
    by (simp add: scripted_def)
  have lease: "GetLease (scripted (Inr node1) (Inr unheldLease) None None) 0 node1 = Inr unheldLease"
    by (simp add: scripted_def)
  show ?thesis
    using fresh stale holder get lease od od' by simp
qed

section \<open>Extension of a lease\<close>

text \<open>
  The branch of \<open>ManageLease\<close> for a lease that has remediations and is not overdue,
  where the renew time and the duration in seconds of the lease are set: the lease is
  requested for the required duration plus the buffer exactly when its expiry is before
  the expected one, nothing is written otherwise, and the required duration is returned
  unless the request fails.
\<close>

lemma ManageLease_extension:
  assumes "client_Get m s (GetName cr) = Inr node" and "GetLease m s node = Inr l"
    and "rems \<noteq> []"
    and "isLeaseOverdue now l nhc rems = (False, None)"
    and "RenewTime l = Some renewTime" and "LeaseDurationSeconds l = Some seconds"
  shows
  "ManageLease m now later cr nhc rems s =
     (if renewTime + 1000000000 * sint seconds
           < later + sint (getLeaseDurationForRemediations nhc rems)
      then (Return (case fst (RequestLease m s node
                                (getLeaseDurationForRemediations nhc rems + LeaseBuffer)) of
                      None \<Rightarrow> (getLeaseDurationForRemediations nhc rems, None)
                    | Some err \<Rightarrow> (0, Some err)),
            snd (RequestLease m s node (getLeaseDurationForRemediations nhc rems + LeaseBuffer)),
            [Call_Get (GetName cr), Call_GetLease node,
             Call_RequestLease node (getLeaseDurationForRemediations nhc rems + LeaseBuffer)])
      else (Return (getLeaseDurationForRemediations nhc rems, None), s,
            [Call_Get (GetName cr), Call_GetLease node]))"
proof -
  have reached: "rems \<noteq> [] \<or> \<not> isLeaseOwner l" using assms(3) by simp
  note extend = ManageLease_extend [OF assms(1,2) reached assms(4,5,6), of later]
  note keep = ManageLease_no_extend [OF assms(1,2) reached assms(4,5,6), of later]
  show ?thesis
    using extend keep by (simp add: Let_def Before_expiry)
qed

text \<open>
  Claim C3, at a lease the code can be handed and does not survive. \<open>unrenewedLease\<close>
  is held by this operator, acquired at instant 0, and has no renew time; with one
  remediation and no policy it is not overdue at instant 0, so the call reaches the
  branch of the claim. There \<^verbatim>\<open>l.Spec.RenewTime.Add\<close> dereferences the nil pointer:
  the call panics, and returns neither the required duration nor an error. On
  \<open>ownLease\<close>, which differs only in its renew time, the same call returns the required
  duration of ten minutes, without a write at instant 0 and with a request for eleven
  minutes at two minutes.
\<close>

theorem ManageLease_extension_nil_renewTime:
  "AcquireTime unrenewedLease = Some 0 \<and> RenewTime unrenewedLease = None \<and>
   isLeaseOverdue 0 unrenewedLease noEscalation [softRebootCR] = (False, None) \<and>
   ManageLease (scripted (Inr node1) (Inr unrenewedLease) None None)
       0 0 softRebootCR noEscalation [softRebootCR] 0 =
     (Panic, 0, [Call_Get ''node1'', Call_GetLease node1]) \<and>
   ManageLease (scripted (Inr node1) (Inr ownLease) None None)
       0 0 softRebootCR noEscalation [softRebootCR] 0 =
     (Return (10 * Minute, None), 0, [Call_Get ''node1'', Call_GetLease node1]) \<and>
   ManageLease (scripted (Inr node1) (Inr ownLease) None None)
       120000000000 120000000000 softRebootCR noEscalation [softRebootCR] 0 =
     (Return (10 * Minute, None), 1,
      [Call_Get ''node1'', Call_GetLease node1, Call_RequestLease node1 (11 * Minute)])"
  by (simp add: ManageLease_def eval_defs)

section \<open>Objects that are not found\<close>

text \<open>
  Claim C8, as the code has it. When the node is fetched and the lease is not found,
  \<open>ManageLease\<close> has nothing to do: it returns zero and no error, and writes nothing.
  When the node itself cannot be fetched, the error of the API client is returned with
  zero, whatever it is, so also when it says that the node is not found; the lease is
  then not looked at.
\<close>

theorem ManageLease_not_found:
  "(\<forall>node err. client_Get m s (GetName cr) = Inr node \<and> GetLease m s node = Inl err \<and>
      IsNotFound err \<longrightarrow>
      ManageLease m now later cr nhc rems s =
        (Return (0, None), s, [Call_Get (GetName cr), Call_GetLease node])) \<and>
   (\<forall>err. client_Get m s (GetName cr) = Inl err \<longrightarrow>
      ManageLease m now later cr nhc rems s =
        (Return (0, Some err), s, [Call_Get (GetName cr)]))"
  using ManageLease_node_error [of m s cr _ now later nhc rems]
    ManageLease_lease_error [of m s cr _ _ now later nhc rems]
  by simp

text \<open>
  The claim as written fails where the node is not found: the error is returned to the
  caller.
\<close>

theorem ManageLease_node_not_found_counterexample:
  "IsNotFound NotFoundError \<and>
   ManageLease (scripted (Inl NotFoundError) (Inl NotFoundError) None None)
       0 0 softRebootCR noEscalation [softRebootCR] 0 =
     (Return (0, Some NotFoundError), 0, [Call_Get ''node1''])"
  by (simp add: ManageLease_def scripted_def softRebootCR_def)

text \<open>A lease that is not found, and a node that is not found.\<close>

theorem ManageLease_not_found_witness:
  "client_Get (scripted (Inr node1) (Inl NotFoundError) None None) 0 (GetName softRebootCR) = Inr node1 \<and>
   GetLease (scripted (Inr node1) (Inl NotFoundError) None None) 0 node1 = Inl NotFoundError \<and>
   IsNotFound NotFoundError \<and>
   ManageLease (scripted (Inr node1) (Inl NotFoundError) None None)
       0 0 softRebootCR noEscalation [softRebootCR] 0 =
     (Return (0, None), 0, [Call_Get ''node1'', Call_GetLease node1]) \<and>
   client_Get (scripted (Inl NotFoundError) (Inl NotFoundError) None None) 0
       (GetName softRebootCR) = Inl NotFoundError \<and>
   ManageLease (scripted (Inl NotFoundError) (Inl NotFoundError) None None)
       0 0 softRebootCR noEscalation [softRebootCR] 0 =
     (Return (0, Some NotFoundError), 0, [Call_Get ''node1''])"
  using ManageLease_not_found [where m = "scripted (Inr node1) (Inl NotFoundError) None None" and s = 0
      and cr = softRebootCR and now = 0 and later = 0 and nhc = noEscalation
      and rems = "[softRebootCR]"]
    ManageLease_not_found [where m = "scripted (Inl NotFoundError) (Inl NotFoundError) None None"
      and s = 0 and cr = softRebootCR and now = 0 and later = 0 and nhc = noEscalation
      and rems = "[softRebootCR]"]
  by (simp add: scripted_def softRebootCR_def node1_def)

section \<open>Obtaining a lease\<close>

lemma sint_plus_LeaseBuffer:
  fixes d :: Duration
  assumes "sint d + sint LeaseBuffer < 2 ^ 63"
  shows "sint (d + LeaseBuffer) = sint d + sint LeaseBuffer"
proof -
  have lb: "sint LeaseBuffer = 60000000000" by (simp add: duration_defs)
  have lo: "- (2 ^ 63) \<le> sint d" using sint_greater_eq [of d] by simp
  have "sint (d + LeaseBuffer) = signed_take_bit 63 (sint d + sint LeaseBuffer)"
    by (simp add: sint_word_ariths)
  also have "\<dots> = sint d + sint LeaseBuffer"
    using assms lo lb by (simp add: signed_take_bit_int_eq_self)
  finally show ?thesis .
qed

lemma ObtainNodeLease_node_error:
  assumes "client_Get m s (GetName cr) = Inl err"
  shows "ObtainNodeLease m cr nhc s = ((False, None, Some err), s, [Call_Get (GetName cr)])"
  using assms by (simp add: ObtainNodeLease_def)

lemma ObtainNodeLease_granted:
  assumes "client_Get m s (GetName cr) = Inr node"
    and "RequestLease m s node (getLeaseDurationForRemediation cr nhc + LeaseBuffer) = (None, s')"
  shows "ObtainNodeLease m cr nhc s =
           ((True, Some (getLeaseDurationForRemediation cr nhc), None), s',
            [Call_Get (GetName cr),
             Call_RequestLease node (getLeaseDurationForRemediation cr nhc + LeaseBuffer)])"
  using assms by (simp add: ObtainNodeLease_def Let_def)

lemma ObtainNodeLease_refused:
  assumes "client_Get m s (GetName cr) = Inr node"
    and "RequestLease m s node (getLeaseDurationForRemediation cr nhc + LeaseBuffer) = (Some err, s')"
  shows "ObtainNodeLease m cr nhc s =
           ((False, if isAlreadyHeldError err then Some RequeueIfLeaseTaken else None, Some err), s',
            [Call_Get (GetName cr),
             Call_RequestLease node (getLeaseDurationForRemediation cr nhc + LeaseBuffer)])"
  using assms by (simp add: ObtainNodeLease_def Let_def)

text \<open>
  Claim C6, as the code has it. \<open>ObtainNodeLease\<close> succeeds exactly when the node is
  fetched and the request is granted. With \<open>d\<close> the duration that
  \<open>getLeaseDurationForRemediation\<close> computes, the one request it then has issued asks
  for \<open>d + LeaseBuffer\<close>, and it returns \<open>True\<close>, \<open>d\<close> without the buffer, and no error.
  The sum is the one of \<^verbatim>\<open>time.Duration\<close>, which wraps around at 64 bits: it is
  \<open>d\<close> plus one minute whenever that is below \<open>2 ^ 63\<close> nanoseconds.
\<close>

theorem ObtainNodeLease_success:
  "(\<forall>node s'. client_Get m s (GetName cr) = Inr node \<and>
      RequestLease m s node (getLeaseDurationForRemediation cr nhc + LeaseBuffer) = (None, s') \<longrightarrow>
      ObtainNodeLease m cr nhc s =
        ((True, Some (getLeaseDurationForRemediation cr nhc), None), s',
         [Call_Get (GetName cr),
          Call_RequestLease node (getLeaseDurationForRemediation cr nhc + LeaseBuffer)])) \<and>
   (fst (fst (ObtainNodeLease m cr nhc s)) \<longrightarrow>
      (\<exists>node s'. client_Get m s (GetName cr) = Inr node \<and>
         RequestLease m s node (getLeaseDurationForRemediation cr nhc + LeaseBuffer) = (None, s') \<and>
         ObtainNodeLease m cr nhc s =
           ((True, Some (getLeaseDurationForRemediation cr nhc), None), s',
            [Call_Get (GetName cr),
             Call_RequestLease node (getLeaseDurationForRemediation cr nhc + LeaseBuffer)]))) \<and>
   sint LeaseBuffer = 60000000000 \<and>
   (sint (getLeaseDurationForRemediation cr nhc) + sint LeaseBuffer < 2 ^ 63 \<longrightarrow>
      sint (getLeaseDurationForRemediation cr nhc + LeaseBuffer) =
        sint (getLeaseDurationForRemediation cr nhc) + sint LeaseBuffer)"
proof -
  let ?d = "getLeaseDurationForRemediation cr nhc"
  have forth: "ObtainNodeLease m cr nhc s =
        ((True, Some ?d, None), s',
         [Call_Get (GetName cr), Call_RequestLease node (?d + LeaseBuffer)])"
    if "client_Get m s (GetName cr) = Inr node" "RequestLease m s node (?d + LeaseBuffer) = (None, s')"
    for node s'
    using ObtainNodeLease_granted [OF that] .
  have conv: "\<exists>node s'. client_Get m s (GetName cr) = Inr node \<and>
         RequestLease m s node (?d + LeaseBuffer) = (None, s') \<and>
         ObtainNodeLease m cr nhc s =
           ((True, Some ?d, None), s',
            [Call_Get (GetName cr), Call_RequestLease node (?d + LeaseBuffer)])"
    if ok: "fst (fst (ObtainNodeLease m cr nhc s))"
  proof (cases "client_Get m s (GetName cr)")
    case (Inl err)
    then show ?thesis using ok ObtainNodeLease_node_error [OF Inl, of nhc] by simp
  next
    case (Inr node)
    obtain answer s' where req: "RequestLease m s node (?d + LeaseBuffer) = (answer, s')"
      by (cases "RequestLease m s node (?d + LeaseBuffer)")
    show ?thesis
    proof (cases answer)
      case None
      then show ?thesis using Inr req ObtainNodeLease_granted [OF Inr, of nhc s'] by simp
    next
      case (Some err)
      then show ?thesis using ok req ObtainNodeLease_refused [OF Inr, of nhc err s'] by simp
    qed
  qed
  have lb: "sint LeaseBuffer = 60000000000" by (simp add: duration_defs)
  have fits: "sint (?d + LeaseBuffer) = sint ?d + sint LeaseBuffer"
    if "sint ?d + sint LeaseBuffer < 2 ^ 63"
    using sint_plus_LeaseBuffer [OF that] .
  show ?thesis
    using forth conv lb fits by blast
qed

text \<open>
  The claim, with the sum read in the integers, fails at the far end of the durations.
  Under \<open>longestPolicy\<close> the duration is \<open>2 ^ 63 - 1\<close> nanoseconds, the call succeeds and
  returns that duration, and the duration it has requested from the lease manager is
  negative: it is not the returned duration plus one minute.
\<close>

theorem ObtainNodeLease_success_overflow_counterexample:
  "ObtainNodeLease (scripted (Inr node1) (Inl NotFoundError) None None) softRebootCR longestPolicy 0 =
     ((True, Some 9223372036854775807, None), 1,
      [Call_Get ''node1'', Call_RequestLease node1 (9223372036854775807 + LeaseBuffer)]) \<and>
   sint (9223372036854775807 :: Duration) = 9223372036854775807 \<and>
   sint LeaseBuffer = 60000000000 \<and>
   sint (9223372036854775807 + LeaseBuffer) = - 9223371976854775809"
  by (simp add: ObtainNodeLease_def eval_defs TrimSuffix_examples)

text \<open>
  The example of the specification: for a duration of ten minutes, eleven minutes are
  requested and ten are returned.
\<close>

theorem ObtainNodeLease_success_witness:
  "client_Get (scripted (Inr node1) (Inl NotFoundError) None None) 0 (GetName untimedCR) = Inr node1 \<and>
   getLeaseDurationForRemediation untimedCR escalationPolicy = 10 * Minute \<and>
   10 * Minute + LeaseBuffer = 11 * Minute \<and>
   RequestLease (scripted (Inr node1) (Inl NotFoundError) None None) 0 node1 (11 * Minute) = (None, 1) \<and>
   ObtainNodeLease (scripted (Inr node1) (Inl NotFoundError) None None) untimedCR escalationPolicy 0 =
     ((True, Some (10 * Minute), None), 1,
      [Call_Get ''node1'', Call_RequestLease node1 (11 * Minute)]) \<and>
   sint (10 * Minute) + sint LeaseBuffer < 2 ^ 63 \<and>
   sint (10 * Minute + LeaseBuffer) = 660000000000"
proof -
  note spec = ObtainNodeLease_success [where m = "scripted (Inr node1) (Inl NotFoundError) None None"
      and s = 0 and cr = untimedCR and nhc = escalationPolicy]
  have d: "getLeaseDurationForRemediation untimedCR escalationPolicy = 10 * Minute"
    by (simp add: example_defs duration_defs TrimSuffix_examples
          getLeaseDurationForRemediation_def getTimeoutForRemediation_def)
  have ttl: "10 * Minute + LeaseBuffer = 11 * Minute" by (simp add: duration_defs)
  have get: "client_Get (scripted (Inr node1) (Inl NotFoundError) None None) 0 (GetName untimedCR) = Inr node1"
    by (simp add: scripted_def)
  have req: "RequestLease (scripted (Inr node1) (Inl NotFoundError) None None) 0 node1 (11 * Minute) = (None, 1)"
    by (simp add: scripted_def)
  have fits: "sint (10 * Minute) + sint LeaseBuffer < 2 ^ 63" by (simp add: duration_defs)
  have name: "GetName untimedCR = ''node1''" by (simp add: untimedCR_def)
  have run: "ObtainNodeLease (scripted (Inr node1) (Inl NotFoundError) None None) untimedCR escalationPolicy 0 =
     ((True, Some (10 * Minute), None), 1,
      [Call_Get ''node1'', Call_RequestLease node1 (11 * Minute)])"
    using spec [THEN conjunct1, rule_format, of node1 1] get req
    by (simp add: d ttl name)
  have sum: "sint (10 * Minute + LeaseBuffer) = 660000000000"
    using spec [THEN conjunct2, THEN conjunct2, THEN conjunct2] fits
    by (simp add: d duration_defs)
  show ?thesis using d ttl get req fits run sum by simp
qed

text \<open>
  Claim C7. When the request of \<open>ObtainNodeLease\<close> is answered with the error that the
  lease is already held, the result is \<open>False\<close>, the hint \<open>RequeueIfLeaseTaken\<close>, which
  is one minute, and that error. When it is answered with any other error, the result
  is \<open>False\<close>, no hint, and that error as it came; the same holds when the node cannot
  be fetched. So the two failures differ in the hint, and \<open>isAlreadyHeldError\<close> tells
  the returned errors apart. In both, the failed request is the only call to the lease
  manager: the state of the cluster is the one that request has left, and it is the
  state of before whenever a refused request leaves the lease alone.
\<close>

theorem ObtainNodeLease_failure:
  "(\<forall>node err s'. client_Get m s (GetName cr) = Inr node \<and>
      RequestLease m s node (getLeaseDurationForRemediation cr nhc + LeaseBuffer) = (Some err, s') \<and>
      isAlreadyHeldError err \<longrightarrow>
      ObtainNodeLease m cr nhc s =
        ((False, Some RequeueIfLeaseTaken, Some err), s',
         [Call_Get (GetName cr),
          Call_RequestLease node (getLeaseDurationForRemediation cr nhc + LeaseBuffer)])) \<and>
   RequeueIfLeaseTaken = Minute \<and> sint RequeueIfLeaseTaken = 60000000000 \<and>
   (\<forall>node err s'. client_Get m s (GetName cr) = Inr node \<and>
      RequestLease m s node (getLeaseDurationForRemediation cr nhc + LeaseBuffer) = (Some err, s') \<and>
      \<not> isAlreadyHeldError err \<longrightarrow>
      ObtainNodeLease m cr nhc s =
        ((False, None, Some err), s',
         [Call_Get (GetName cr),
          Call_RequestLease node (getLeaseDurationForRemediation cr nhc + LeaseBuffer)])) \<and>
   (\<forall>err. client_Get m s (GetName cr) = Inl err \<longrightarrow>
      ObtainNodeLease m cr nhc s = ((False, None, Some err), s, [Call_Get (GetName cr)])) \<and>
   (\<forall>node err. client_Get m s (GetName cr) = Inr node \<and>
      RequestLease m s node (getLeaseDurationForRemediation cr nhc + LeaseBuffer) = (Some err, s) \<longrightarrow>
      fst (snd (ObtainNodeLease m cr nhc s)) = s)"
proof -
  let ?ttl = "getLeaseDurationForRemediation cr nhc + LeaseBuffer"
  have held: "ObtainNodeLease m cr nhc s =
        ((False, Some RequeueIfLeaseTaken, Some err), s',
         [Call_Get (GetName cr), Call_RequestLease node ?ttl])"
    if "client_Get m s (GetName cr) = Inr node" "RequestLease m s node ?ttl = (Some err, s')"
      "isAlreadyHeldError err"
    for node err s'
    using ObtainNodeLease_refused [OF that(1,2)] that(3) by simp
  have other: "ObtainNodeLease m cr nhc s =
        ((False, None, Some err), s', [Call_Get (GetName cr), Call_RequestLease node ?ttl])"
    if "client_Get m s (GetName cr) = Inr node" "RequestLease m s node ?ttl = (Some err, s')"
      "\<not> isAlreadyHeldError err"
    for node err s'
    using ObtainNodeLease_refused [OF that(1,2)] that(3) by simp
  have nonode: "ObtainNodeLease m cr nhc s = ((False, None, Some err), s, [Call_Get (GetName cr)])"
    if "client_Get m s (GetName cr) = Inl err" for err
    using ObtainNodeLease_node_error [OF that] .
  have same: "fst (snd (ObtainNodeLease m cr nhc s)) = s"
    if "client_Get m s (GetName cr) = Inr node" "RequestLease m s node ?ttl = (Some err, s)"
    for node err
    using ObtainNodeLease_refused [OF that(1,2)] by simp
  have minute: "RequeueIfLeaseTaken = Minute" by (simp add: RequeueIfLeaseTaken_def)
  have ns: "sint RequeueIfLeaseTaken = 60000000000" by (simp add: duration_defs)
  show ?thesis
    using held other nonode same minute ns by blast
qed

text \<open>
  A request for the lease of \<open>node1\<close> that is refused because the lease is held, one
  that fails with a timeout, and a node that cannot be fetched. The test double leaves
  its state at 0 in all three.
\<close>

theorem ObtainNodeLease_failure_witness:
  "client_Get (scripted (Inr node1) (Inr foreignLease) (Some AlreadyHeldError) None) 0
       (GetName softRebootCR) = Inr node1 \<and>
   RequestLease (scripted (Inr node1) (Inr foreignLease) (Some AlreadyHeldError) None) 0 node1
       (getLeaseDurationForRemediation softRebootCR escalationPolicy + LeaseBuffer) =
     (Some AlreadyHeldError, 0) \<and>
   isAlreadyHeldError AlreadyHeldError \<and> \<not> isAlreadyHeldError (OtherError ''timeout'') \<and>
   ObtainNodeLease (scripted (Inr node1) (Inr foreignLease) (Some AlreadyHeldError) None)
       softRebootCR escalationPolicy 0 =
     ((False, Some Minute, Some AlreadyHeldError), 0,
      [Call_Get ''node1'', Call_RequestLease node1 (6 * Minute)]) \<and>
   ObtainNodeLease (scripted (Inr node1) (Inr foreignLease) (Some (OtherError ''timeout'')) None)
       softRebootCR escalationPolicy 0 =
     ((False, None, Some (OtherError ''timeout'')), 0,
      [Call_Get ''node1'', Call_RequestLease node1 (6 * Minute)]) \<and>
   ObtainNodeLease (scripted (Inl (OtherError ''unreachable'')) (Inr foreignLease) None None)
       softRebootCR escalationPolicy 0 =
     ((False, None, Some (OtherError ''unreachable'')), 0, [Call_Get ''node1''])"
  using ObtainNodeLease_failure [where m = "scripted (Inr node1) (Inr foreignLease) (Some AlreadyHeldError) None"
      and s = 0 and cr = softRebootCR and nhc = escalationPolicy]
    ObtainNodeLease_failure [where m = "scripted (Inr node1) (Inr foreignLease) (Some (OtherError ''timeout'')) None"
      and s = 0 and cr = softRebootCR and nhc = escalationPolicy]
    ObtainNodeLease_failure [where m = "scripted (Inl (OtherError ''unreachable'')) (Inr foreignLease) None None"
      and s = 0 and cr = softRebootCR and nhc = escalationPolicy]
  by (simp add: scripted_def example_defs duration_defs TrimSuffix_examples
        getLeaseDurationForRemediation_def getTimeoutForRemediation_def)

end
